theory Spec2Isabelle
  imports Main
begin

section \<open>Mouse-tracking reading experiments: word layout and dwell times\<close>

text \<open>
  A shallow embedding of \<^verbatim>\<open>mouse_viz.py\<close>: the reconstruction of the word boxes of a
  rendered text (\<^verbatim>\<open>get_word_positions\<close>) and the bucketing of a stream of pointer
  samples into per-word durations (\<^verbatim>\<open>compute_word_durations\<close>).

  Pixel coordinates and millisecond timestamps are Python integers (\<open>int\<close>): the
  bounding boxes of a PIL font are integer tuples. A raised exception is the \<open>Inl\<close>
  branch of a sum type.
\<close>

subsection \<open>Constants, errors and data\<close>

definition FONT_SIZE :: int where
  "FONT_SIZE = 18"

definition LINE_HEIGHT :: int where
  "LINE_HEIGHT = 25"

definition HORIZONTAL_PADDING :: int where
  "HORIZONTAL_PADDING = 30"

definition VERTICAL_PADDING_TOP :: int where
  "VERTICAL_PADDING_TOP = 20"

datatype error = ValueError string | IndexError | KeyError int

text \<open>A font is its \<^verbatim>\<open>getbbox\<close> method: text to (left, top, right, bottom).\<close>

record font =
  getbbox :: "string \<Rightarrow> int \<times> int \<times> int \<times> int"

text \<open>The dictionary appended to \<^verbatim>\<open>word_positions\<close> for each word.\<close>

record word_box =
  word :: string
  word_index :: int
  x_start :: int
  x_end :: int
  y_position :: int
  line_index :: int

text \<open>One element of a \<^verbatim>\<open>mouse_tracking_data\<close> list.\<close>

record sample =
  point_x :: int
  point_y :: int
  timestamp :: int

text \<open>A row of the data frame, with the columns that the module reads.\<close>

record trial =
  trial_type :: string
  text_content :: string
  trial_canvas_width :: int
  trial_canvas_height :: int
  mouse_tracking_data :: "sample list"

text \<open>A row of the data frame returned by \<^verbatim>\<open>compute_word_durations\<close>.\<close>

record duration_row =
  word_number :: int
  row_word :: string
  duration_ms :: int
  row_x_start :: int
  row_x_end :: int
  row_y_position :: int
  line_number :: int

subsection \<open>Library operations of Python and pandas\<close>

text \<open>
  \<^verbatim>\<open>s.split(sep)\<close> for a separator of one character: every occurrence of the separator
  ends a token, so the empty string gives one empty token.
\<close>

fun py_split :: "char \<Rightarrow> string \<Rightarrow> string list" where
  "py_split sep [] = [[]]"
| "py_split sep (c # cs) =
     (if c = sep then [] # py_split sep cs
      else (case py_split sep cs of
              [] \<Rightarrow> [[c]]
            | w # ws \<Rightarrow> (c # w) # ws))"

text \<open>\<^verbatim>\<open>bbox[2] - bbox[0]\<close> of a bounding box.\<close>

fun bbox_width :: "int \<times> int \<times> int \<times> int \<Rightarrow> int" where
  "bbox_width (x0, y0, x1, y1) = x1 - x0"

text \<open>
  \<^verbatim>\<open>series.iloc[i]\<close>: a negative position counts from the end, a position out of
  bounds raises IndexError.
\<close>

definition iloc :: "'a list \<Rightarrow> int \<Rightarrow> error + 'a" where
  "iloc xs i =
     (if i < - int (length xs) \<or> int (length xs) \<le> i then Inl IndexError
      else if i < 0 then Inr (xs ! nat (int (length xs) + i))
      else Inr (xs ! nat i))"

text \<open>
  \<^verbatim>\<open>round(v, ndigits)\<close> with \<open>0 < ndigits\<close> on an integer value gives the value back.
\<close>

definition py_round :: "int \<Rightarrow> nat \<Rightarrow> int" where
  "py_round v ndigits = v"

text \<open>A loop whose body may raise: the first exception ends it.\<close>

fun for_each :: "('a \<Rightarrow> 's \<Rightarrow> error + 's) \<Rightarrow> 'a list \<Rightarrow> 's \<Rightarrow> error + 's" where
  "for_each body [] s = Inr s"
| "for_each body (a # as) s =
     (case body a s of Inl e \<Rightarrow> Inl e | Inr s' \<Rightarrow> for_each body as s')"

subsection \<open>\<^verbatim>\<open>get_mouse_data\<close>\<close>

definition get_mouse_data :: "trial list \<Rightarrow> int \<Rightarrow> error + sample list" where
  "get_mouse_data df_reading trial_num =
     (let mouse_data = filter (\<lambda>row. length (mouse_tracking_data row) > 0) df_reading
      in iloc (map mouse_tracking_data mouse_data) trial_num)"

subsection \<open>\<^verbatim>\<open>get_word_positions\<close>\<close>

text \<open>
  The state of the loop over the words: the boxes so far, \<^verbatim>\<open>current_line_text\<close>,
  \<^verbatim>\<open>current_x\<close> and the running line index. The y position multiplies the line index
  by the module constant \<open>LINE_HEIGHT\<close>, as the source does.
\<close>

type_synonym layout_state = "word_box list \<times> string \<times> int \<times> int"

definition layout_word ::
  "font \<Rightarrow> int \<Rightarrow> int \<Rightarrow> int \<Rightarrow> string \<Rightarrow> layout_state \<Rightarrow> layout_state" where
  "layout_word fnt text_start_x text_start_y available_width w st =
     (case st of (word_positions, current_line_text, current_x, li) \<Rightarrow>
       let test_line = current_line_text @ (if current_line_text \<noteq> [] then '' '' else []) @ w;
           test_width = bbox_width (getbbox fnt test_line);
           wrap = (test_width > available_width \<and> current_line_text \<noteq> []);
           li' = (if wrap then li + 1 else li);
           x' = (if wrap then text_start_x
                 else if current_line_text \<noteq> []
                      then text_start_x + bbox_width (getbbox fnt (current_line_text @ '' ''))
                      else current_x);
           line' = (if wrap then w else test_line);
           word_width = bbox_width (getbbox fnt w);
           y = text_start_y + (li' * LINE_HEIGHT)
       in (word_positions @
             [\<lparr>word = w, word_index = int (length word_positions),
               x_start = x', x_end = x' + word_width,
               y_position = y, line_index = li'\<rparr>],
           line', x' + word_width, li'))"

fun layout_words ::
  "font \<Rightarrow> int \<Rightarrow> int \<Rightarrow> int \<Rightarrow> string list \<Rightarrow> layout_state \<Rightarrow> layout_state" where
  "layout_words fnt text_start_x text_start_y available_width [] st = st"
| "layout_words fnt text_start_x text_start_y available_width (w # ws) st =
     layout_words fnt text_start_x text_start_y available_width ws
       (layout_word fnt text_start_x text_start_y available_width w st)"

definition get_word_positions ::
  "string \<Rightarrow> int \<Rightarrow> font \<Rightarrow> int \<Rightarrow> int \<Rightarrow> int \<Rightarrow> word_box list" where
  "get_word_positions text canvas_width fnt horizontal_padding vertical_padding_top line_height =
     (let text_start_x = horizontal_padding div 2;
          text_start_y = vertical_padding_top + 10;
          available_width = canvas_width - horizontal_padding;
          words = py_split CHR '' '' text
      in fst (layout_words fnt text_start_x text_start_y available_width words
                ([], [], text_start_x, 0)))"

subsection \<open>\<^verbatim>\<open>compute_word_durations\<close>\<close>

text \<open>
  \<^verbatim>\<open>word_durations\<close> is a dictionary from word index to accumulated time, created
  with the keys \<open>0, \<dots>, len(word_positions) - 1\<close>. Reading a key that is absent
  raises KeyError.
\<close>

type_synonym durations = "int \<rightharpoonup> int"

definition init_durations :: "word_box list \<Rightarrow> durations" where
  "init_durations word_positions =
     (\<lambda>i. if 0 \<le> i \<and> i < int (length word_positions) then Some 0 else None)"

definition lookup :: "durations \<Rightarrow> int \<Rightarrow> error + int" where
  "lookup word_durations k =
     (case word_durations k of None \<Rightarrow> Inl (KeyError k) | Some d \<Rightarrow> Inr d)"

text \<open>\<^verbatim>\<open>word_durations[k] += dt\<close>\<close>

definition add_duration :: "durations \<Rightarrow> int \<Rightarrow> int \<Rightarrow> error + durations" where
  "add_duration word_durations k dt =
     (case lookup word_durations k of
        Inl e \<Rightarrow> Inl e
      | Inr d \<Rightarrow> Inr (word_durations(k \<mapsto> d + dt)))"

text \<open>
  The inner loop over the boxes: the first box whose two tests succeed receives
  \<open>dt\<close>, and \<^verbatim>\<open>break\<close> leaves the loop.
\<close>

fun attribute ::
  "word_box list \<Rightarrow> int \<Rightarrow> int \<Rightarrow> int \<Rightarrow> int \<Rightarrow> int \<Rightarrow> durations \<Rightarrow> error + durations" where
  "attribute [] x y dt x_tolerance y_tolerance word_durations = Inr word_durations"
| "attribute (wp # wps) x y dt x_tolerance y_tolerance word_durations =
     (if (x_start wp - x_tolerance) \<le> x \<and> x \<le> (x_end wp + x_tolerance)
      then (if (y_position wp - y_tolerance) \<le> y \<and> y \<le> (y_position wp + y_tolerance)
            then add_duration word_durations (word_index wp) dt
            else attribute wps x y dt x_tolerance y_tolerance word_durations)
      else attribute wps x y dt x_tolerance y_tolerance word_durations)"

text \<open>The body of the loop \<^verbatim>\<open>for i in range(n - 1)\<close>.\<close>

definition process_interval ::
  "sample list \<Rightarrow> word_box list \<Rightarrow> int \<Rightarrow> int \<Rightarrow> nat \<Rightarrow> durations \<Rightarrow> error + durations" where
  "process_interval tracking word_positions x_tolerance y_tolerance i word_durations =
     (let point = tracking ! i;
          next_point = tracking ! (i + 1);
          x = point_x point;
          y = point_y point;
          dt = timestamp next_point - timestamp point
      in if dt \<le> 0 \<or> dt > 1000 then Inr word_durations
         else attribute word_positions x y dt x_tolerance y_tolerance word_durations)"

text \<open>The row of the early return, and the row of the final loop.\<close>

definition zero_row :: "word_box \<Rightarrow> duration_row" where
  "zero_row wp =
     \<lparr>word_number = word_index wp, row_word = word wp, duration_ms = 0,
      row_x_start = x_start wp, row_x_end = x_end wp,
      row_y_position = y_position wp, line_number = line_index wp\<rparr>"

fun build_rows :: "word_box list \<Rightarrow> durations \<Rightarrow> error + duration_row list" where
  "build_rows [] word_durations = Inr []"
| "build_rows (wp # wps) word_durations =
     (case lookup word_durations (word_index wp) of
        Inl e \<Rightarrow> Inl e
      | Inr d \<Rightarrow>
          (case build_rows wps word_durations of
             Inl e \<Rightarrow> Inl e
           | Inr data \<Rightarrow>
               Inr (\<lparr>word_number = word_index wp, row_word = word wp,
                     duration_ms = py_round d 2,
                     row_x_start = py_round (x_start wp) 1,
                     row_x_end = py_round (x_end wp) 1,
                     row_y_position = py_round (y_position wp) 1,
                     line_number = line_index wp\<rparr> # data)))"

text \<open>
  The part of the function after the stream has been obtained: the early return for
  fewer than two samples, the loop over the intervals and the final table.
\<close>

definition bucket_stream ::
  "sample list \<Rightarrow> word_box list \<Rightarrow> int \<Rightarrow> int \<Rightarrow> error + duration_row list" where
  "bucket_stream tracking word_positions x_tolerance y_tolerance =
     (let word_durations = init_durations word_positions;
          n = length tracking
      in if n < 2 then Inr (map zero_row word_positions)
         else (case for_each (process_interval tracking word_positions x_tolerance y_tolerance)
                      [0 ..< n - 1] word_durations of
                 Inl e \<Rightarrow> Inl e
               | Inr word_durations' \<Rightarrow> build_rows word_positions word_durations'))"

text \<open>
  An argument left at its default \<^verbatim>\<open>None\<close> is \<open>None\<close>; a given one is \<open>Some\<close>.
  The tolerances have the defaults 5 and 15.
\<close>

definition compute_word_durations ::
  "trial list \<Rightarrow> int option \<Rightarrow> string option \<Rightarrow> word_box list option \<Rightarrow> int \<Rightarrow> int
     \<Rightarrow> error + duration_row list" where
  "compute_word_durations df_reading canvas_width text word_positions x_tolerance y_tolerance =
     (if canvas_width = None then Inl (ValueError ''canvas_width must be provided.'')
      else if text = None then Inl (ValueError ''text must be provided.'')
      else (case word_positions of
              None \<Rightarrow> Inl (ValueError ''word_positions must be provided.'')
            | Some wps \<Rightarrow>
                (case get_mouse_data df_reading 0 of
                   Inl e \<Rightarrow> Inl e
                 | Inr tracking \<Rightarrow> bucket_stream tracking wps x_tolerance y_tolerance)))"


subsection \<open>Notions of the specification\<close>

text \<open>
  The tolerance-expanded region of a box, in the words of the specification:
  \<open>[x_start - xTolerance, x_end + xTolerance]\<close> horizontally and
  \<open>[y_position - yTolerance, y_position + yTolerance]\<close> vertically.
\<close>

definition in_region :: "int \<Rightarrow> int \<Rightarrow> int \<Rightarrow> int \<Rightarrow> word_box \<Rightarrow> bool" where
  "in_region x y x_tolerance y_tolerance wp =
     (x_start wp - x_tolerance \<le> x \<and> x \<le> x_end wp + x_tolerance \<and>
      y_position wp - y_tolerance \<le> y \<and> y \<le> y_position wp + y_tolerance)"

text \<open>The time between sample \<open>i\<close> and the next one.\<close>

definition interval_dt :: "sample list \<Rightarrow> nat \<Rightarrow> int" where
  "interval_dt tracking i = timestamp (tracking ! (i + 1)) - timestamp (tracking ! i)"

text \<open>The row of a box when every key is present in \<^verbatim>\<open>word_durations\<close>.\<close>

definition row_of :: "durations \<Rightarrow> word_box \<Rightarrow> duration_row" where
  "row_of wd wp = (zero_row wp)\<lparr>duration_ms := the (wd (word_index wp))\<rparr>"

subsection \<open>Concrete inputs\<close>

definition pt :: "int \<Rightarrow> int \<Rightarrow> int \<Rightarrow> sample" where
  "pt px py t = \<lparr>point_x = px, point_y = py, timestamp = t\<rparr>"

definition reading_trial :: "sample list \<Rightarrow> trial" where
  "reading_trial stream =
     \<lparr>trial_type = ''reading'', text_content = ''the cat sat'',
      trial_canvas_width = 200, trial_canvas_height = 100,
      mouse_tracking_data = stream\<rparr>"

definition box_the :: word_box where
  "box_the = \<lparr>word = ''the'', word_index = 0, x_start = 15, x_end = 45,
               y_position = 30, line_index = 0\<rparr>"

definition box_cat :: word_box where
  "box_cat = \<lparr>word = ''cat'', word_index = 1, x_start = 55, x_end = 85,
               y_position = 30, line_index = 0\<rparr>"

text \<open>A box that overlaps \<open>box_the\<close>.\<close>

definition box_over :: word_box where
  "box_over = \<lparr>word = ''tho'', word_index = 1, x_start = 10, x_end = 40,
                y_position = 30, line_index = 0\<rparr>"

text \<open>A font in which every character is \<open>k\<close> pixels wide.\<close>

definition fixed_font :: "int \<Rightarrow> font" where
  "fixed_font k = \<lparr>getbbox = (\<lambda>s. (0, 0, k * int (length s), FONT_SIZE))\<rparr>"

section \<open>Properties\<close>

subsection \<open>Library operations\<close>

lemma py_split_not_Nil: "py_split sep s \<noteq> []"
  by (induction s) (auto split: list.splits)

lemma length_py_split: "length (py_split sep s) = Suc (count_list s sep)"
  by (induction s) (auto split: list.splits simp: py_split_not_Nil)

lemma iloc_0: "iloc xs 0 = (case xs of [] \<Rightarrow> Inl IndexError | x # _ \<Rightarrow> Inr x)"
  by (simp add: iloc_def split: list.splits)

lemma get_mouse_data_0:
  "get_mouse_data df 0 =
     (case find (\<lambda>row. mouse_tracking_data row \<noteq> []) df of
        None \<Rightarrow> Inl IndexError
      | Some row \<Rightarrow> Inr (mouse_tracking_data row))"
  by (induction df) (auto simp: get_mouse_data_def iloc_0)

subsection \<open>The layout of a text\<close>

text \<open>
  C7: with the text "the cat sat", a canvas 200 wide, a font of 10 pixels per
  character and the paddings 30 and 20 and line height 25, \<^verbatim>\<open>get_word_positions\<close>
  returns three boxes, all on line 0; "the" spans 15 to 45 and "sat" starts at
  15 plus the width of "the cat ", which is 95.
\<close>

theorem get_word_positions_the_cat_sat:
  "get_word_positions ''the cat sat'' 200 (fixed_font 10) 30 20 25 =
     [\<lparr>word = ''the'', word_index = 0, x_start = 15, x_end = 45,
        y_position = 30, line_index = 0\<rparr>,
      \<lparr>word = ''cat'', word_index = 1, x_start = 55, x_end = 85,
        y_position = 30, line_index = 0\<rparr>,
      \<lparr>word = ''sat'', word_index = 2, x_start = 95, x_end = 125,
        y_position = 30, line_index = 0\<rparr>]
   \<and> 15 + bbox_width (getbbox (fixed_font 10) ''the cat '') = 95"
  by (simp add: get_word_positions_def layout_word_def fixed_font_def LINE_HEIGHT_def)

lemma layout_word_box:
  "\<exists>b l' x' li'.
     layout_word f tsx tsy aw w (acc, l, x, li) = (acc @ [b], l', x', li')
     \<and> word b = w \<and> word_index b = int (length acc)
     \<and> x_end b = x_start b + bbox_width (getbbox f w)
     \<and> y_position b = tsy + line_index b * LINE_HEIGHT
     \<and> line_index b = li' \<and> li \<le> li'"
  by (simp add: layout_word_def Let_def)

lemma layout_words_boxes:
  "\<exists>new. fst (layout_words f tsx tsy aw ws (acc, l, x, li)) = acc @ new
     \<and> map word new = ws
     \<and> map word_index new = map int [length acc ..< length acc + length ws]
     \<and> (\<forall>b \<in> set new. x_end b = x_start b + bbox_width (getbbox f (word b))
                       \<and> y_position b = tsy + line_index b * LINE_HEIGHT
                       \<and> li \<le> line_index b)
     \<and> sorted (map line_index new)"
proof (induction ws arbitrary: acc l x li)
  case Nil
  then show ?case by simp
next
  case (Cons w ws)
  obtain b l' x' li' where step:
    "layout_word f tsx tsy aw w (acc, l, x, li) = (acc @ [b], l', x', li')"
    "word b = w" "word_index b = int (length acc)"
    "x_end b = x_start b + bbox_width (getbbox f w)"
    "y_position b = tsy + line_index b * LINE_HEIGHT"
    "line_index b = li'" "li \<le> li'"
    using layout_word_box [of f tsx tsy aw w acc l x li] by blast
  obtain new where new:
    "fst (layout_words f tsx tsy aw ws (acc @ [b], l', x', li')) = (acc @ [b]) @ new"
    "map word new = ws"
    "map word_index new = map int [length (acc @ [b]) ..< length (acc @ [b]) + length ws]"
    "\<forall>c \<in> set new. x_end c = x_start c + bbox_width (getbbox f (word c))
                       \<and> y_position c = tsy + line_index c * LINE_HEIGHT
                       \<and> li' \<le> line_index c"
    "sorted (map line_index new)"
    using Cons.IH [of "acc @ [b]" l' x' li'] by blast
  have "[length acc ..< length acc + length (w # ws)]
          = length acc # [length (acc @ [b]) ..< length (acc @ [b]) + length ws]"
    by (subst upt_rec) simp
  then have idx: "map word_index (b # new) = map int [length acc ..< length acc + length (w # ws)]"
    by (simp only: list.map step(3) new(3))
  have f1: "fst (layout_words f tsx tsy aw (w # ws) (acc, l, x, li)) = acc @ (b # new)"
    using step(1) new(1) by simp
  have f2: "map word (b # new) = w # ws"
    using step(2) new(2) by simp
  have f3: "\<forall>c \<in> set (b # new). x_end c = x_start c + bbox_width (getbbox f (word c))
                       \<and> y_position c = tsy + line_index c * LINE_HEIGHT
                       \<and> li \<le> line_index c"
    using step new(4) by auto
  have f4: "sorted (map line_index (b # new))"
    using step(6) new(4,5) by auto
  show ?case
    by (rule exI [of _ "b # new"]) (intro conjI f1 f2 idx f3 f4)
qed

lemma get_word_positions_boxes:
  "map word (get_word_positions text cw f hp vpt lh) = py_split CHR '' '' text
   \<and> map word_index (get_word_positions text cw f hp vpt lh)
       = map int [0 ..< length (py_split CHR '' '' text)]
   \<and> (\<forall>b \<in> set (get_word_positions text cw f hp vpt lh).
         x_end b = x_start b + bbox_width (getbbox f (word b))
         \<and> y_position b = vpt + 10 + line_index b * LINE_HEIGHT
         \<and> 0 \<le> line_index b)
   \<and> sorted (map line_index (get_word_positions text cw f hp vpt lh))"
  using layout_words_boxes [of f "hp div 2" "vpt + 10" "cw - hp" "py_split CHR '' '' text"
      "[]" "[]" "hp div 2" 0]
  by (auto simp: get_word_positions_def Let_def)

text \<open>
  C2: \<^verbatim>\<open>get_word_positions\<close> returns one box per token of \<^verbatim>\<open>text.split(' ')\<close>, in
  order: the words of the boxes are the tokens (empty tokens included), their number is
  one more than the number of spaces, and the indices count from 0. Every box is as
  wide as the font measures its word, so the box of an empty token has width zero for
  a font that measures the empty string as zero wide.
\<close>

theorem get_word_positions_one_box_per_token:
  "map word (get_word_positions text cw f hp vpt lh) = py_split CHR '' '' text
   \<and> length (get_word_positions text cw f hp vpt lh) = length (py_split CHR '' '' text)
   \<and> length (get_word_positions text cw f hp vpt lh) = Suc (count_list text CHR '' '')
   \<and> map word_index (get_word_positions text cw f hp vpt lh)
       = map int [0 ..< length (py_split CHR '' '' text)]
   \<and> (\<forall>b \<in> set (get_word_positions text cw f hp vpt lh).
         x_end b = x_start b + bbox_width (getbbox f (word b)))
   \<and> (bbox_width (getbbox f []) = 0 \<longrightarrow>
        (\<forall>b \<in> set (get_word_positions text cw f hp vpt lh).
           word b = [] \<longrightarrow> x_end b = x_start b))"
proof -
  note boxes = get_word_positions_boxes [of "text" cw f hp vpt lh]
  from boxes have words: "map word (get_word_positions text cw f hp vpt lh) = py_split CHR '' '' text"
    by blast
  then have len: "length (get_word_positions text cw f hp vpt lh) = length (py_split CHR '' '' text)"
    by (metis length_map)
  from boxes have width: "\<forall>b \<in> set (get_word_positions text cw f hp vpt lh).
         x_end b = x_start b + bbox_width (getbbox f (word b))"
    by blast
  then have "bbox_width (getbbox f []) = 0 \<longrightarrow>
        (\<forall>b \<in> set (get_word_positions text cw f hp vpt lh).
           word b = [] \<longrightarrow> x_end b = x_start b)"
    by simp
  with boxes words len width show ?thesis
    by (simp add: length_py_split)
qed

text \<open>
  The theorem at a text with a leading, a double and a trailing space.
\<close>

theorem get_word_positions_one_box_per_token_witness:
  "map word (get_word_positions '' a  b '' 200 (fixed_font 10) 30 20 25)
     = [[], ''a'', [], ''b'', []]
   \<and> map word_index (get_word_positions '' a  b '' 200 (fixed_font 10) 30 20 25)
     = [0, 1, 2, 3, 4]
   \<and> bbox_width (getbbox (fixed_font 10) []) = 0
   \<and> map x_start (get_word_positions '' a  b '' 200 (fixed_font 10) 30 20 25)
     = [15, 15, 35, 45, 65]
   \<and> map x_end (get_word_positions '' a  b '' 200 (fixed_font 10) 30 20 25)
     = [15, 25, 35, 55, 65]"
  using get_word_positions_one_box_per_token [of "'' a  b ''" 200 "fixed_font 10" 30 20 25]
  by (simp add: get_word_positions_def layout_word_def fixed_font_def LINE_HEIGHT_def)

text \<open>
  C6 at a call with \<^verbatim>\<open>line_height\<close> 30 and a text that wraps: the second box is on line
  1 and its y position is 55, which is \<open>20 + 10 + 1 * LINE_HEIGHT\<close> with the module
  constant 25, while the claim asks for \<open>20 + 10 + 1 * 30 = 60\<close>. The argument
  \<^verbatim>\<open>line_height\<close> is never read. (That the line index never decreases, and the y
  position with \<open>LINE_HEIGHT\<close>, is \<open>get_word_positions_boxes\<close>.)
\<close>

theorem get_word_positions_ignores_line_height:
  "get_word_positions ''aa bb'' 50 (fixed_font 10) 30 20 30 =
     [\<lparr>word = ''aa'', word_index = 0, x_start = 15, x_end = 35,
        y_position = 30, line_index = 0\<rparr>,
      \<lparr>word = ''bb'', word_index = 1, x_start = 15, x_end = 35,
        y_position = 55, line_index = 1\<rparr>]
   \<and> (20::int) + 10 + 1 * 30 = 60"
  by (simp add: get_word_positions_def layout_word_def fixed_font_def LINE_HEIGHT_def)

subsection \<open>The dictionary and the loops\<close>

lemma lookup_Some: "wd k = Some d \<Longrightarrow> lookup wd k = Inr d"
  by (simp add: lookup_def)

lemma lookup_None: "wd k = None \<Longrightarrow> lookup wd k = Inl (KeyError k)"
  by (simp add: lookup_def)

lemma add_duration_Some: "wd k = Some d \<Longrightarrow> add_duration wd k dt = Inr (wd(k \<mapsto> d + dt))"
  by (simp add: add_duration_def lookup_def)

lemma add_duration_None: "wd k = None \<Longrightarrow> add_duration wd k dt = Inl (KeyError k)"
  by (simp add: add_duration_def lookup_def)

lemma add_duration_dom:
  "k \<in> dom wd \<Longrightarrow> \<exists>wd'. add_duration wd k dt = Inr wd' \<and> dom wd' = dom wd"
  by (auto simp: add_duration_Some)

lemma add_duration_error: "add_duration wd k dt = Inl e \<Longrightarrow> e = KeyError k"
  by (cases "wd k") (auto simp: add_duration_Some add_duration_None)

lemma attribute_no_match:
  "\<forall>wp \<in> set wps. \<not> in_region x y xt yt wp \<Longrightarrow> attribute wps x y dt xt yt wd = Inr wd"
  by (induction wps) (auto simp: in_region_def)

lemma attribute_first_match:
  "\<forall>b \<in> set pre. \<not> in_region x y xt yt b \<Longrightarrow> in_region x y xt yt wp \<Longrightarrow>
   attribute (pre @ wp # post) x y dt xt yt wd = add_duration wd (word_index wp) dt"
  by (induction pre) (auto simp: in_region_def)

lemma attribute_find:
  "attribute wps x y dt xt yt wd =
     (case find (in_region x y xt yt) wps of
        None \<Rightarrow> Inr wd
      | Some wp \<Rightarrow> add_duration wd (word_index wp) dt)"
  by (induction wps) (auto simp: in_region_def)

lemma attribute_dom:
  "\<forall>wp \<in> set wps. word_index wp \<in> dom wd \<Longrightarrow>
   \<exists>wd'. attribute wps x y dt xt yt wd = Inr wd' \<and> dom wd' = dom wd"
  by (induction wps) (auto simp: add_duration_Some)

lemma attribute_error: "attribute wps x y dt xt yt wd = Inl e \<Longrightarrow> \<exists>k. e = KeyError k"
  by (induction wps) (auto split: if_splits dest: add_duration_error)

lemma process_interval_dom:
  "\<forall>wp \<in> set wps. word_index wp \<in> dom wd \<Longrightarrow>
   \<exists>wd'. process_interval tracking wps xt yt i wd = Inr wd' \<and> dom wd' = dom wd"
  using attribute_dom [of wps wd] by (simp add: process_interval_def Let_def)

lemma process_interval_error:
  "process_interval tracking wps xt yt i wd = Inl e \<Longrightarrow> \<exists>k. e = KeyError k"
  by (auto simp: process_interval_def Let_def split: if_splits dest: attribute_error)

lemma for_each_error:
  "(\<And>a s e. body a s = Inl e \<Longrightarrow> P e) \<Longrightarrow> for_each body as s = Inl e \<Longrightarrow> P e"
  by (induction as arbitrary: s) (auto split: sum.splits)

lemma for_each_invariant:
  "(\<And>a s. I s \<Longrightarrow> \<exists>s'. body a s = Inr s' \<and> I s') \<Longrightarrow> I s \<Longrightarrow>
   \<exists>s'. for_each body as s = Inr s' \<and> I s'"
proof (induction as arbitrary: s)
  case Nil
  then show ?case by simp
next
  case (Cons a as)
  from Cons.prems obtain s1 where s1: "body a s = Inr s1" "I s1" by blast
  from Cons.IH [OF Cons.prems(1) s1(2)] obtain s' where "for_each body as s1 = Inr s'" "I s'"
    by blast
  with s1 show ?case by simp
qed

lemma for_each_filter:
  "(\<And>a s. \<not> keep a \<Longrightarrow> body a s = Inr s) \<Longrightarrow>
   for_each body (filter keep as) s = for_each body as s"
  by (induction as arbitrary: s) (auto split: sum.splits)

lemma build_rows_ok:
  "\<forall>wp \<in> set wps. word_index wp \<in> dom wd \<Longrightarrow> build_rows wps wd = Inr (map (row_of wd) wps)"
  by (induction wps) (auto simp: lookup_Some row_of_def zero_row_def py_round_def)

lemma build_rows_error: "build_rows wps wd = Inl e \<Longrightarrow> \<exists>k. e = KeyError k"
  by (induction wps) (auto simp: lookup_def split: sum.splits option.splits)

lemma build_rows_missing:
  "wp \<in> set wps \<Longrightarrow> wd (word_index wp) = None \<Longrightarrow> \<exists>e. build_rows wps wd = Inl e"
  by (induction wps) (auto simp: lookup_def split: sum.splits option.splits)

lemma dom_init_durations: "dom (init_durations wps) = {i. 0 \<le> i \<and> i < int (length wps)}"
  by (auto simp: init_durations_def split: if_splits)

lemma bucket_stream_error: "bucket_stream tracking wps xt yt = Inl e \<Longrightarrow> \<exists>k. e = KeyError k"
  apply (auto simp: bucket_stream_def Let_def split: if_splits sum.splits)
   apply (erule for_each_error[rotated])
  apply (erule process_interval_error)
  apply (erule build_rows_error)
  done

lemma bucket_stream_ok:
  assumes "length tracking < 2 \<or> (\<forall>wp \<in> set wps. 0 \<le> word_index wp \<and> word_index wp < int (length wps))"
  shows "\<exists>wd. bucket_stream tracking wps xt yt = Inr (map (row_of wd) wps)"
proof (cases "length tracking < 2")
  case True
  have "map zero_row wps = map (row_of (\<lambda>k. Some 0)) wps"
    by (simp add: row_of_def zero_row_def)
  with True show ?thesis by (auto simp: bucket_stream_def Let_def)
next
  case False
  with assms have keys: "\<forall>wp \<in> set wps. word_index wp \<in> dom (init_durations wps)"
    by (simp add: dom_init_durations)
  let ?I = "\<lambda>wd. dom wd = dom (init_durations wps)"
  have "\<exists>wd. for_each (process_interval tracking wps xt yt) [0 ..< length tracking - 1]
           (init_durations wps) = Inr wd \<and> ?I wd"
  proof (rule for_each_invariant)
    fix a and s :: durations assume "dom s = dom (init_durations wps)"
    with keys process_interval_dom [of wps s tracking xt yt a]
    show "\<exists>s'. process_interval tracking wps xt yt a s = Inr s' \<and> dom s' = dom (init_durations wps)"
      by auto
  qed simp
  then obtain wd where wd: "for_each (process_interval tracking wps xt yt)
      [0 ..< length tracking - 1] (init_durations wps) = Inr wd" "?I wd" by blast
  with keys have "build_rows wps wd = Inr (map (row_of wd) wps)"
    by (intro build_rows_ok) simp
  with wd False show ?thesis by (auto simp: bucket_stream_def Let_def)
qed

lemma process_interval_skip:
  "interval_dt tracking i \<le> 0 \<or> interval_dt tracking i > 1000 \<Longrightarrow>
   process_interval tracking wps xt yt i wd = Inr wd"
  by (auto simp: process_interval_def interval_dt_def Let_def)

lemma process_interval_valid:
  "0 < interval_dt tracking i \<Longrightarrow> interval_dt tracking i \<le> 1000 \<Longrightarrow>
   process_interval tracking wps xt yt i wd =
     attribute wps (point_x (tracking ! i)) (point_y (tracking ! i)) (interval_dt tracking i)
       xt yt wd"
  by (auto simp: process_interval_def interval_dt_def Let_def)

subsection \<open>The durations\<close>

text \<open>
  C9: two calls of \<^verbatim>\<open>compute_word_durations\<close> that differ only in the values given for
  \<^verbatim>\<open>canvas_width\<close> and \<^verbatim>\<open>text\<close> return the same result: the two arguments are tested
  for presence and never read again.
\<close>

theorem compute_word_durations_ignores_canvas_width_and_text:
  "compute_word_durations df_reading (Some canvas_width1) (Some text1) word_positions
       x_tolerance y_tolerance =
   compute_word_durations df_reading (Some canvas_width2) (Some text2) word_positions
       x_tolerance y_tolerance"
  by (simp add: compute_word_durations_def)

lemma compute_word_durations_Some:
  "compute_word_durations df (Some cw) (Some txt) (Some wps) xt yt =
     (case find (\<lambda>row. mouse_tracking_data row \<noteq> []) df of
        None \<Rightarrow> Inl IndexError
      | Some row \<Rightarrow> bucket_stream (mouse_tracking_data row) wps xt yt)"
  by (simp add: compute_word_durations_def get_mouse_data_0 split: option.splits)

text \<open>
  What the function returns once a stream is selected: when \<^verbatim>\<open>df_reading\<close> has a row
  with a non-empty stream, and that stream has fewer than two samples or every
  \<^verbatim>\<open>word_index\<close> is a key of \<^verbatim>\<open>word_durations\<close> (in \<open>0, \<dots>, len(word_positions) - 1\<close>),
  the table has exactly one row per box, in the order of the boxes, carrying the index,
  word, coordinates and line of its box.
\<close>

lemma compute_word_durations_rows_of_boxes:
  assumes "find (\<lambda>row. mouse_tracking_data row \<noteq> []) df_reading = Some row"
    and "length (mouse_tracking_data row) < 2 \<or>
         (\<forall>wp \<in> set wps. 0 \<le> word_index wp \<and> word_index wp < int (length wps))"
  shows "\<exists>rows. compute_word_durations df_reading (Some cw) (Some txt) (Some wps) xt yt = Inr rows
           \<and> length rows = length wps
           \<and> map word_number rows = map word_index wps
           \<and> map row_word rows = map word wps
           \<and> map row_x_start rows = map x_start wps
           \<and> map row_x_end rows = map x_end wps
           \<and> map row_y_position rows = map y_position wps
           \<and> map line_number rows = map line_index wps"
proof -
  from bucket_stream_ok [OF assms(2)] obtain wd where
    "bucket_stream (mouse_tracking_data row) wps xt yt = Inr (map (row_of wd) wps)"
    by blast
  with assms(1) have "compute_word_durations df_reading (Some cw) (Some txt) (Some wps) xt yt
      = Inr (map (row_of wd) wps)"
    by (simp add: compute_word_durations_Some)
  then show ?thesis by (simp add: row_of_def zero_row_def)
qed

text \<open>
  C1 at a data frame whose only row has no samples. The property asks for one record
  per box whatever the number of samples, 0 included, and the early return for fewer
  than two samples builds that table (two rows of zero duration here) from an empty
  stream. The call never gets there: the selection of the stream in
  \<^verbatim>\<open>get_mouse_data\<close> raises IndexError, and no table is returned.
\<close>

theorem compute_word_durations_no_samples_raises:
  "compute_word_durations [reading_trial []] (Some 200) (Some ''the cat sat'')
       (Some [box_the, box_cat]) 5 15 = Inl IndexError
   \<and> bucket_stream [] [box_the, box_cat] 5 15 = Inr [zero_row box_the, zero_row box_cat]"
  by (simp add: compute_word_durations_def get_mouse_data_def iloc_def reading_trial_def
      bucket_stream_def)

text \<open>
  A selected stream with fewer than two samples has exactly one sample, since rows
  without samples are filtered out before the selection; the function then returns one
  row per box with \<^verbatim>\<open>duration_ms\<close> 0. The early return itself gives the same table for
  no sample and for one.
\<close>

lemma compute_word_durations_one_sample:
  assumes "find (\<lambda>row. mouse_tracking_data row \<noteq> []) df_reading = Some row"
    and "length (mouse_tracking_data row) < 2"
  shows "compute_word_durations df_reading (Some cw) (Some txt) (Some wps) xt yt
           = Inr (map zero_row wps)
         \<and> map duration_ms (map zero_row wps) = replicate (length wps) 0
         \<and> length (mouse_tracking_data row) = 1
         \<and> bucket_stream [] wps xt yt = bucket_stream (mouse_tracking_data row) wps xt yt"
proof -
  from assms(1) have "mouse_tracking_data row \<noteq> []"
    by (auto simp: find_Some_iff)
  with assms(2) have one: "length (mouse_tracking_data row) = 1"
    by (cases "mouse_tracking_data row") auto
  have zero: "map duration_ms (map zero_row wps) = replicate (length wps) 0"
    by (induction wps) (simp_all add: zero_row_def)
  from assms(1) one have "compute_word_durations df_reading (Some cw) (Some txt) (Some wps) xt yt
      = Inr (map zero_row wps)"
    by (simp add: compute_word_durations_Some bucket_stream_def)
  moreover from one have "bucket_stream [] wps xt yt = bucket_stream (mouse_tracking_data row) wps xt yt"
    by (simp add: bucket_stream_def)
  ultimately show ?thesis using zero one by blast
qed

text \<open>
  C3 at an empty stream. The property asks that a stream of 0 samples raises nothing
  and gives the same table of zero durations as a stream of one sample. With one
  sample the function returns that table, and the early return builds it from an empty
  stream as well; but the call with the empty stream raises IndexError in
  \<^verbatim>\<open>get_mouse_data\<close> before the early return is reached.
\<close>

theorem compute_word_durations_empty_stream_raises:
  "compute_word_durations [reading_trial []] (Some 200) (Some ''the'') (Some [box_the]) 5 15
     = Inl IndexError
   \<and> compute_word_durations [reading_trial [pt 20 25 0]] (Some 200) (Some ''the'') (Some [box_the]) 5 15
     = Inr [zero_row box_the]
   \<and> bucket_stream [] [box_the] 5 15 = Inr [zero_row box_the]"
  by (simp add: compute_word_durations_def get_mouse_data_def iloc_def reading_trial_def
      bucket_stream_def)

text \<open>
  C8, as the code has it: the function raises ValueError exactly when one of
  \<^verbatim>\<open>canvas_width\<close>, \<^verbatim>\<open>text\<close> and \<^verbatim>\<open>word_positions\<close> is missing (\<^verbatim>\<open>None\<close>), whatever the
  data frame holds; it never raises it when the three are given.
\<close>

theorem compute_word_durations_value_error_iff:
  "(\<exists>msg. compute_word_durations df_reading canvas_width text word_positions xt yt
           = Inl (ValueError msg))
   = (canvas_width = None \<or> text = None \<or> word_positions = None)"
proof (cases "canvas_width = None \<or> text = None \<or> word_positions = None")
  case True
  then show ?thesis by (auto simp: compute_word_durations_def)
next
  case False
  then obtain cw tx wps where
    args: "canvas_width = Some cw" "text = Some tx" "word_positions = Some wps"
    by auto
  have "compute_word_durations df_reading (Some cw) (Some tx) (Some wps) xt yt \<noteq> Inl (ValueError msg)"
    for msg
    by (auto simp: compute_word_durations_Some split: option.splits dest: bucket_stream_error)
  with False args show ?thesis by simp
qed

text \<open>
  C8 as stated fails for empty arguments: with canvas width 0, the empty text and the
  empty list of boxes the function returns the empty table.
\<close>

theorem compute_word_durations_accepts_empty_arguments:
  "compute_word_durations [reading_trial [pt 20 25 0, pt 20 25 500]] (Some 0) (Some []) (Some []) 5 15
     = Inr []"
  by (simp add: compute_word_durations_def get_mouse_data_def iloc_def reading_trial_def
      bucket_stream_def process_interval_def pt_def init_durations_def)

text \<open>
  C10: the stream that \<^verbatim>\<open>compute_word_durations\<close> buckets is
  \<^verbatim>\<open>get_mouse_data(df_reading)\<close> with \<^verbatim>\<open>trial_num\<close> 0, which is the stream of the first row
  whose \<^verbatim>\<open>mouse_tracking_data\<close> is non-empty, whatever boxes are passed in.
\<close>

theorem compute_word_durations_stream_is_first_nonempty:
  "get_mouse_data df_reading 0 =
     (case find (\<lambda>row. mouse_tracking_data row \<noteq> []) df_reading of
        None \<Rightarrow> Inl IndexError
      | Some row \<Rightarrow> Inr (mouse_tracking_data row))
   \<and> compute_word_durations df_reading (Some cw) (Some txt) (Some wps) xt yt =
     (case get_mouse_data df_reading 0 of
        Inl e \<Rightarrow> Inl e
      | Inr tracking \<Rightarrow> bucket_stream tracking wps xt yt)
   \<and> compute_word_durations df_reading (Some cw) (Some txt) (Some wps) xt yt =
     (case find (\<lambda>row. mouse_tracking_data row \<noteq> []) df_reading of
        None \<Rightarrow> Inl IndexError
      | Some row \<Rightarrow> bucket_stream (mouse_tracking_data row) wps xt yt)"
  by (simp add: compute_word_durations_Some get_mouse_data_0 split: option.splits)

text \<open>
  C4: an interval whose \<open>dt\<close> is at most 0 or above 1000 leaves every accumulated
  duration as it was and raises nothing; the loop body changes the durations or raises
  only when \<open>0 < dt \<le> 1000\<close>; and the loop over all intervals gives the same result
  as the loop over the intervals with \<open>0 < dt \<le> 1000\<close> alone.
\<close>

theorem invalid_intervals_are_skipped:
  "(interval_dt tracking i \<le> 0 \<or> interval_dt tracking i > 1000 \<longrightarrow>
      process_interval tracking wps xt yt i wd = Inr wd)
   \<and> (process_interval tracking wps xt yt i wd \<noteq> Inr wd \<longrightarrow>
      0 < interval_dt tracking i \<and> interval_dt tracking i \<le> 1000)
   \<and> for_each (process_interval tracking wps xt yt)
        (filter (\<lambda>j. 0 < interval_dt tracking j \<and> interval_dt tracking j \<le> 1000)
           [0 ..< length tracking - 1]) wd
     = for_each (process_interval tracking wps xt yt) [0 ..< length tracking - 1] wd"
proof (intro conjI impI)
  assume "interval_dt tracking i \<le> 0 \<or> interval_dt tracking i > 1000"
  then show "process_interval tracking wps xt yt i wd = Inr wd"
    by (rule process_interval_skip)
next
  assume changed: "process_interval tracking wps xt yt i wd \<noteq> Inr wd"
  show "0 < interval_dt tracking i"
  proof (rule ccontr)
    assume "\<not> 0 < interval_dt tracking i"
    then have "process_interval tracking wps xt yt i wd = Inr wd"
      by (intro process_interval_skip) simp
    with changed show False by simp
  qed
next
  assume changed: "process_interval tracking wps xt yt i wd \<noteq> Inr wd"
  show "interval_dt tracking i \<le> 1000"
  proof (rule ccontr)
    assume "\<not> interval_dt tracking i \<le> 1000"
    then have "process_interval tracking wps xt yt i wd = Inr wd"
      by (intro process_interval_skip) simp
    with changed show False by simp
  qed
next
  have skip: "process_interval tracking wps xt yt j s = Inr s"
    if "\<not> (0 < interval_dt tracking j \<and> interval_dt tracking j \<le> 1000)" for j s
    using that by (intro process_interval_skip) auto
  show "for_each (process_interval tracking wps xt yt)
          (filter (\<lambda>j. 0 < interval_dt tracking j \<and> interval_dt tracking j \<le> 1000)
             [0 ..< length tracking - 1]) wd
        = for_each (process_interval tracking wps xt yt) [0 ..< length tracking - 1] wd"
    by (rule for_each_filter) (rule skip)
qed

text \<open>
  The theorem at a stream with a gap of 5000 ms followed by a step back in time.
\<close>

theorem invalid_intervals_are_skipped_witness:
  "interval_dt [pt 20 25 0, pt 20 25 5000, pt 20 25 4000] 0 > 1000
   \<and> interval_dt [pt 20 25 0, pt 20 25 5000, pt 20 25 4000] 1 \<le> 0
   \<and> process_interval [pt 20 25 0, pt 20 25 5000, pt 20 25 4000] [box_the] 5 15 0
        (init_durations [box_the]) = Inr (init_durations [box_the])
   \<and> process_interval [pt 20 25 0, pt 20 25 5000, pt 20 25 4000] [box_the] 5 15 1
        (init_durations [box_the]) = Inr (init_durations [box_the])"
proof -
  let ?tr = "[pt 20 25 0, pt 20 25 5000, pt 20 25 4000]"
  have dt0: "interval_dt ?tr 0 > 1000" and dt1: "interval_dt ?tr 1 \<le> 0"
    by (simp_all add: interval_dt_def pt_def)
  from dt0 invalid_intervals_are_skipped [of ?tr 0 "[box_the]" 5 15 "init_durations [box_the]", THEN conjunct1]
  have "process_interval ?tr [box_the] 5 15 0 (init_durations [box_the])
          = Inr (init_durations [box_the])"
    by blast
  moreover from dt1 invalid_intervals_are_skipped [of ?tr 1 "[box_the]" 5 15 "init_durations [box_the]", THEN conjunct1]
  have "process_interval ?tr [box_the] 5 15 1 (init_durations [box_the])
          = Inr (init_durations [box_the])"
    by blast
  ultimately show ?thesis using dt0 dt1 by blast
qed

text \<open>
  The loop body on the dictionary, for an interval with \<open>0 < dt \<le> 1000\<close>: when no
  expanded region contains the position of sample \<open>i\<close>, nothing changes; when \<open>wp\<close>
  is the first box whose region contains it, the whole \<open>dt\<close> is added to the entry of
  \<open>wp\<close> and to no other key, whatever the later boxes \<open>post\<close> are. In general the
  body is the update at the first match found by \<open>find\<close>.
\<close>

lemma process_interval_first_match:
  assumes "0 < interval_dt tracking i" and "interval_dt tracking i \<le> 1000"
  shows "((\<forall>b \<in> set wps. \<not> in_region (point_x (tracking ! i)) (point_y (tracking ! i)) xt yt b)
            \<longrightarrow> process_interval tracking wps xt yt i wd = Inr wd)
       \<and> (wps = pre @ wp # post
            \<and> (\<forall>b \<in> set pre. \<not> in_region (point_x (tracking ! i)) (point_y (tracking ! i)) xt yt b)
            \<and> in_region (point_x (tracking ! i)) (point_y (tracking ! i)) xt yt wp
            \<and> wd (word_index wp) = Some d
            \<longrightarrow> process_interval tracking wps xt yt i wd
                  = Inr (wd(word_index wp \<mapsto> d + interval_dt tracking i)))
       \<and> process_interval tracking wps xt yt i wd =
           (case find (in_region (point_x (tracking ! i)) (point_y (tracking ! i)) xt yt) wps of
              None \<Rightarrow> Inr wd
            | Some b \<Rightarrow> add_duration wd (word_index b) (interval_dt tracking i))"
proof -
  let ?x = "point_x (tracking ! i)" and ?y = "point_y (tracking ! i)"
  let ?dt = "interval_dt tracking i"
  have body: "process_interval tracking ws xt yt i wd = attribute ws ?x ?y ?dt xt yt wd" for ws
    using assms by (rule process_interval_valid)
  have none: "process_interval tracking wps xt yt i wd = Inr wd"
    if "\<forall>b \<in> set wps. \<not> in_region ?x ?y xt yt b"
    using that by (simp add: body attribute_no_match)
  have first: "process_interval tracking wps xt yt i wd = Inr (wd(word_index wp \<mapsto> d + ?dt))"
    if "wps = pre @ wp # post" "\<forall>b \<in> set pre. \<not> in_region ?x ?y xt yt b"
       "in_region ?x ?y xt yt wp" "wd (word_index wp) = Some d"
    using that by (simp add: body attribute_first_match add_duration_Some)
  have scan: "process_interval tracking wps xt yt i wd =
      (case find (in_region ?x ?y xt yt) wps of
         None \<Rightarrow> Inr wd
       | Some b \<Rightarrow> add_duration wd (word_index b) ?dt)"
    by (simp only: body attribute_find)
  from none first scan show ?thesis by blast
qed

text \<open>
  The table is built from the dictionary, one row per box; these lemmas relate a
  change of one entry to the rows.
\<close>

lemma build_rows_Inr:
  "build_rows wps wd = Inr rows \<Longrightarrow>
   (\<forall>b \<in> set wps. word_index b \<in> dom wd) \<and> rows = map (row_of wd) wps"
proof (induction wps arbitrary: rows)
  case Nil
  then show ?case by simp
next
  case (Cons wp wps)
  from Cons.prems obtain d data where
    d: "wd (word_index wp) = Some d" and data: "build_rows wps wd = Inr data"
    by (auto simp: lookup_def split: option.splits sum.splits)
  from Cons.IH [OF data] have keys: "\<forall>b \<in> set wps. word_index b \<in> dom wd"
    and rest: "data = map (row_of wd) wps"
    by simp_all
  from d keys have all: "\<forall>b \<in> set (wp # wps). word_index b \<in> dom wd"
    by auto
  from build_rows_ok [OF all] Cons.prems have "rows = map (row_of wd) (wp # wps)"
    by simp
  with all show ?case by blast
qed

lemma row_of_other:
  "word_index b \<noteq> k \<Longrightarrow> row_of (wd(k \<mapsto> v)) b = row_of wd b"
  by (simp add: row_of_def)

lemma row_of_same:
  "wd (word_index b) = Some d \<Longrightarrow>
   row_of (wd(word_index b \<mapsto> d + dt)) b
     = (row_of wd b)\<lparr>duration_ms := duration_ms (row_of wd b) + dt\<rparr>"
  by (simp add: row_of_def zero_row_def)

lemma rows_after_update:
  assumes "distinct (map word_index wps)" and "j < length wps"
    and "wd (word_index (wps ! j)) = Some d"
  shows "map (row_of (wd(word_index (wps ! j) \<mapsto> d + dt))) wps
         = (map (row_of wd) wps)
             [j := (map (row_of wd) wps ! j)
                     \<lparr>duration_ms := duration_ms (map (row_of wd) wps ! j) + dt\<rparr>]"
proof (rule nth_equalityI)
  show "length (map (row_of (wd(word_index (wps ! j) \<mapsto> d + dt))) wps)
        = length ((map (row_of wd) wps)
             [j := (map (row_of wd) wps ! j)
                     \<lparr>duration_ms := duration_ms (map (row_of wd) wps ! j) + dt\<rparr>])"
    by simp
next
  fix m
  assume "m < length (map (row_of (wd(word_index (wps ! j) \<mapsto> d + dt))) wps)"
  then have m: "m < length wps" by simp
  show "map (row_of (wd(word_index (wps ! j) \<mapsto> d + dt))) wps ! m
        = (map (row_of wd) wps)
             [j := (map (row_of wd) wps ! j)
                     \<lparr>duration_ms := duration_ms (map (row_of wd) wps ! j) + dt\<rparr>] ! m"
  proof (cases "m = j")
    case True
    with assms(2,3) show ?thesis by (simp add: row_of_same)
  next
    case False
    with assms(1,2) m have "word_index (wps ! m) \<noteq> word_index (wps ! j)"
      by (metis distinct_conv_nth length_map nth_map)
    with False m assms(2) show ?thesis by (simp add: row_of_other)
  qed
qed

text \<open>
  C5: let the boxes carry distinct indices, as the data model has them (contiguous from
  0), and let \<open>rows\<close> be the table that the durations accumulated so far give. For an
  interval with \<open>0 < dt \<le> 1000\<close>: when no expanded region contains the position of
  sample \<open>i\<close>, the durations and so every record stay as they are. When box \<open>j\<close> is
  the first in list order whose region contains it, whatever the later boxes are, the
  table after the interval is \<open>rows\<close> with \<open>dt\<close> added in full to the duration of
  record \<open>j\<close>, and every other record unchanged.
\<close>

theorem valid_interval_goes_to_first_matching_box:
  assumes "0 < interval_dt tracking i" and "interval_dt tracking i \<le> 1000"
    and "distinct (map word_index wps)"
    and "build_rows wps wd = Inr rows"
  shows "((\<forall>b \<in> set wps. \<not> in_region (point_x (tracking ! i)) (point_y (tracking ! i)) xt yt b)
            \<longrightarrow> process_interval tracking wps xt yt i wd = Inr wd)
       \<and> (j < length wps
            \<and> in_region (point_x (tracking ! i)) (point_y (tracking ! i)) xt yt (wps ! j)
            \<and> (\<forall>k < j. \<not> in_region (point_x (tracking ! i)) (point_y (tracking ! i)) xt yt (wps ! k))
            \<longrightarrow> (\<exists>wd'. process_interval tracking wps xt yt i wd = Inr wd'
                   \<and> build_rows wps wd'
                       = Inr (rows[j := (rows ! j)\<lparr>duration_ms :=
                                duration_ms (rows ! j) + interval_dt tracking i\<rparr>])))"
proof (intro conjI impI)
  let ?x = "point_x (tracking ! i)" and ?y = "point_y (tracking ! i)"
  let ?dt = "interval_dt tracking i"
  have body: "process_interval tracking wps xt yt i wd = attribute wps ?x ?y ?dt xt yt wd"
    using assms(1,2) by (rule process_interval_valid)
  {
    assume "\<forall>b \<in> set wps. \<not> in_region ?x ?y xt yt b"
    then show "process_interval tracking wps xt yt i wd = Inr wd"
      by (simp add: body attribute_no_match)
  next
    assume hit: "j < length wps \<and> in_region ?x ?y xt yt (wps ! j)
                 \<and> (\<forall>k < j. \<not> in_region ?x ?y xt yt (wps ! k))"
    from build_rows_Inr [OF assms(4)] have keys: "\<forall>b \<in> set wps. word_index b \<in> dom wd"
      and rows: "rows = map (row_of wd) wps"
      by simp_all
    from hit keys obtain d where d: "wd (word_index (wps ! j)) = Some d"
      by (metis domD nth_mem)
    let ?wd' = "wd(word_index (wps ! j) \<mapsto> d + ?dt)"
    from hit have split: "wps = take j wps @ wps ! j # drop (Suc j) wps"
      by (simp add: id_take_nth_drop)
    from hit have before: "\<forall>b \<in> set (take j wps). \<not> in_region ?x ?y xt yt b"
      by (auto simp: in_set_conv_nth)
    from hit have "attribute (take j wps @ wps ! j # drop (Suc j) wps) ?x ?y ?dt xt yt wd
                   = add_duration wd (word_index (wps ! j)) ?dt"
      using before by (intro attribute_first_match) simp_all
    with split have "attribute wps ?x ?y ?dt xt yt wd = add_duration wd (word_index (wps ! j)) ?dt"
      by simp
    with d have step: "process_interval tracking wps xt yt i wd = Inr ?wd'"
      by (simp add: body add_duration_Some)
    from keys have "\<forall>b \<in> set wps. word_index b \<in> dom ?wd'"
      by auto
    then have "build_rows wps ?wd' = Inr (map (row_of ?wd') wps)"
      by (rule build_rows_ok)
    also from assms(3) hit d have "map (row_of ?wd') wps
        = rows[j := (rows ! j)\<lparr>duration_ms := duration_ms (rows ! j) + ?dt\<rparr>]"
      unfolding rows by (intro rows_after_update) simp_all
    finally show "\<exists>wd'. process_interval tracking wps xt yt i wd = Inr wd'
        \<and> build_rows wps wd'
            = Inr (rows[j := (rows ! j)\<lparr>duration_ms := duration_ms (rows ! j) + ?dt\<rparr>])"
      using step by blast
  }
qed

text \<open>
  The theorem at two overlapping boxes that both contain the point: the 500 ms go to
  the record of the first one only.
\<close>

theorem valid_interval_goes_to_first_matching_box_witness:
  "0 < interval_dt [pt 20 25 0, pt 20 25 500] 0 \<and> interval_dt [pt 20 25 0, pt 20 25 500] 0 \<le> 1000
   \<and> distinct (map word_index [box_the, box_over])
   \<and> build_rows [box_the, box_over] (init_durations [box_the, box_over])
        = Inr [zero_row box_the, zero_row box_over]
   \<and> in_region 20 25 5 15 box_the \<and> in_region 20 25 5 15 box_over
   \<and> (\<exists>wd'. process_interval [pt 20 25 0, pt 20 25 500] [box_the, box_over] 5 15 0
              (init_durations [box_the, box_over]) = Inr wd'
         \<and> build_rows [box_the, box_over] wd'
            = Inr [(zero_row box_the)\<lparr>duration_ms := 500\<rparr>, zero_row box_over])
   \<and> bucket_stream [pt 20 25 0, pt 20 25 500] [box_the, box_over] 5 15
      = Inr [(zero_row box_the)\<lparr>duration_ms := 500\<rparr>, zero_row box_over]"
proof -
  let ?tr = "[pt 20 25 0, pt 20 25 500]" and ?wps = "[box_the, box_over]"
  have dt: "interval_dt ?tr 0 = 500"
    by (simp add: interval_dt_def pt_def)
  have dist: "distinct (map word_index ?wps)"
    by (simp add: box_the_def box_over_def)
  have rows: "build_rows ?wps (init_durations ?wps) = Inr [zero_row box_the, zero_row box_over]"
    by (simp add: init_durations_def lookup_def box_the_def box_over_def zero_row_def py_round_def)
  have hit: "in_region 20 25 5 15 box_the" "in_region 20 25 5 15 box_over"
    by (simp_all add: in_region_def box_the_def box_over_def)
  have dt_pos: "0 < interval_dt ?tr 0" and dt_le: "interval_dt ?tr 0 \<le> 1000"
    by (simp_all add: dt)
  note inst = valid_interval_goes_to_first_matching_box [where tracking = ?tr and i = 0 and wps = ?wps and wd = "init_durations ?wps"
             and rows = "[zero_row box_the, zero_row box_over]" and xt = 5 and yt = 15 and j = 0,
           OF dt_pos dt_le dist rows, THEN conjunct2]
  have first: "0 < length ?wps
      \<and> in_region (point_x (?tr ! 0)) (point_y (?tr ! 0)) 5 15 (?wps ! 0)
      \<and> (\<forall>k < 0. \<not> in_region (point_x (?tr ! 0)) (point_y (?tr ! 0)) 5 15 (?wps ! k))"
    using hit by (simp add: pt_def)
  from inst first have "\<exists>wd'. process_interval ?tr ?wps 5 15 0 (init_durations ?wps) = Inr wd'
         \<and> build_rows ?wps wd'
             = Inr ([zero_row box_the, zero_row box_over]
                      [0 := ([zero_row box_the, zero_row box_over] ! 0)\<lparr>duration_ms :=
                         duration_ms ([zero_row box_the, zero_row box_over] ! 0)
                           + interval_dt ?tr 0\<rparr>])"
    by (rule mp)
  then have one: "\<exists>wd'. process_interval ?tr ?wps 5 15 0 (init_durations ?wps) = Inr wd'
         \<and> build_rows ?wps wd' = Inr [(zero_row box_the)\<lparr>duration_ms := 500\<rparr>, zero_row box_over]"
    by (simp add: dt zero_row_def del: build_rows.simps)
  have whole: "bucket_stream ?tr ?wps 5 15
      = Inr [(zero_row box_the)\<lparr>duration_ms := 500\<rparr>, zero_row box_over]"
    by (simp add: bucket_stream_def process_interval_def pt_def init_durations_def
        add_duration_def lookup_def box_the_def box_over_def zero_row_def py_round_def)
  from dt dist rows hit one whole show ?thesis by simp
qed

end
